theory Spec2Isabelle
  imports Complex_Main
begin

section \<open>Data model of \<open>app.py\<close>\<close>

text \<open>
  The four tables of the application. A table is the list of its rows in insertion
  order. Python integers are \<open>int\<close>; the \<open>Float\<close> columns (\<open>Student.score\<close>,
  \<open>Answer.score_change\<close>) and the results of \<open>parse_float\<close> are \<open>real\<close>;
  a \<open>DateTime\<close> is a clock reading, an \<open>int\<close>. Field names carry the
  prefix of their table (\<open>sd\<close>, \<open>st\<close>, \<open>q\<close>, \<open>a\<close>), since several
  tables have a column \<open>sid\<close> or \<open>created_at\<close>.
\<close>

type_synonym datetime = int

record Seed =
  sd_sid :: int
  sd_r :: int

record Student =
  st_sid :: int
  st_score :: real
  st_created_at :: datetime

text \<open>
  The column \<open>options_json\<close> holds a text. What \<open>Question.options\<close> reads from it
  is either a JSON list, whose elements it turns into strings, or anything else (a text
  that does not parse, or parses to a non-list), which it reads as the empty list.
  \<open>json_dumps\<close> is \<open>json.dumps\<close> on a list of strings.
\<close>

datatype options_text = Json_list "string list" | Json_other

definition json_dumps :: "string list \<Rightarrow> options_text" where
  "json_dumps xs = Json_list xs"

record Question =
  q_id :: int
  q_preset_id :: "string option"
  q_content :: string
  q_options_json :: options_text
  q_is_active :: bool
  q_created_at :: datetime
  q_settled_at :: "datetime option"

definition options :: "Question \<Rightarrow> string list" where
  "options q = (case q_options_json q of Json_list xs \<Rightarrow> xs | Json_other \<Rightarrow> [])"

record Answer =
  a_id :: int
  a_sid :: int
  a_question_id :: int
  a_option_index :: int
  a_code :: int
  a_timestamp :: datetime
  a_score_change :: real

record db =
  seeds :: "Seed list"
  students :: "Student list"
  questions :: "Question list"
  answers :: "Answer list"

definition MAX_SID :: int where "MAX_SID = 64"
definition MIN_SID :: int where "MIN_SID = 1"

text \<open>The constraint \<open>uq_answer_sid_question\<close> the table of answers declares.\<close>

definition uq_answer_sid_question :: "db \<Rightarrow> bool" where
  "uq_answer_sid_question d = distinct (map (\<lambda>a. (a_sid a, a_question_id a)) (answers d))"

text \<open>
  The key a table with an integer primary key gives a new row: one more than the
  largest key in the table, 1 in an empty table.
\<close>

definition next_id :: "int list \<Rightarrow> int" where
  "next_id ks = (case ks of [] \<Rightarrow> 1 | k # ks' \<Rightarrow> fold max ks' k + 1)"

section \<open>Request strings\<close>

text \<open>
  A request field is a string of code points below 256. \<open>isspace\<close> is
  \<open>str.isspace\<close> on such a character (the ASCII white space, NEL and the no-break
  space), and \<open>strip\<close> is \<open>str.strip()\<close>. \<open>str_isdigit\<close> is \<open>str.isdigit\<close>:
  it holds of a non-empty string of the digits 0 to 9 and the superscripts 0xB2, 0xB3 and
  0xB9. \<open>int\<close> converts such a string when all its characters are 0 to 9, which is
  what \<open>isdigit\<close> says, and the number is \<open>int_of_digits\<close>; on a superscript it
  raises \<open>ValueError\<close>. The cap an interpreter may put on the number of digits
  \<open>int\<close> reads is a setting of the interpreter and is left out.
\<close>

definition isspace :: "char \<Rightarrow> bool" where
  "isspace c = (of_char c \<in> set [9, 10, 11, 12, 13, 28, 29, 30, 31, 32, 133, 160 :: nat])"

definition strip :: "string \<Rightarrow> string" where
  "strip s = rev (dropWhile isspace (rev (dropWhile isspace s)))"

definition str_isdigit :: "string \<Rightarrow> bool" where
  "str_isdigit s =
     (s \<noteq> [] \<and>
      list_all (\<lambda>c. 48 \<le> (of_char c :: nat) \<and> (of_char c :: nat) \<le> 57 \<or>
                     of_char c \<in> set [178, 179, 185 :: nat]) s)"

definition isdigit :: "string \<Rightarrow> bool" where
  "isdigit s = (s \<noteq> [] \<and> list_all (\<lambda>c. 48 \<le> (of_char c :: nat) \<and> (of_char c :: nat) \<le> 57) s)"

definition int_of_digits :: "string \<Rightarrow> int" where
  "int_of_digits s = foldl (\<lambda>n c. 10 * n + (int (of_char c) - 48)) 0 s"

section \<open>Queries\<close>

text \<open>
  \<open>Seed.query.get\<close>, \<open>Student.query.get\<close> and \<open>Question.query.get\<close>: the row
  with the key, when the table has one.

  The store is SQLite unless it is configured otherwise; its driver binds an integer of
  64 bits and raises \<open>OverflowError\<close> on a larger one (\<open>bind_overflow\<close>)
  before any row is read. No table holds such a key, so a lookup by such a key finds
  nothing; the endpoints that look up a key taken from the request end there in the
  error, which nothing catches.
\<close>

definition bind_overflow :: "int \<Rightarrow> bool" where
  "bind_overflow k = (k < - (2 ^ 63) \<or> 2 ^ 63 \<le> k)"

definition get_seed :: "db \<Rightarrow> int \<Rightarrow> Seed option" where
  "get_seed d sid = find (\<lambda>s. sd_sid s = sid) (seeds d)"

definition get_student :: "db \<Rightarrow> int \<Rightarrow> Student option" where
  "get_student d sid = find (\<lambda>s. st_sid s = sid) (students d)"

definition get_question :: "db \<Rightarrow> int \<Rightarrow> Question option" where
  "get_question d qid = find (\<lambda>q. q_id q = qid) (questions d)"

text \<open>
  \<open>get_active_question\<close>: of the rows with \<open>is_active\<close>, the one created last
  (\<open>order_by(created_at.desc()).first()\<close>); among rows created at the same instant
  the model takes the first of the table.
\<close>

definition get_active_question :: "db \<Rightarrow> Question option" where
  "get_active_question d =
     (case filter q_is_active (questions d) of
        [] \<Rightarrow> None
      | q # qs \<Rightarrow>
          Some (fold (\<lambda>x best. if q_created_at best < q_created_at x then x else best) qs q))"

text \<open>\<open>Answer.query.filter_by(question_id=qid, sid=sid).first()\<close>.\<close>

definition first_answer :: "db \<Rightarrow> int \<Rightarrow> int \<Rightarrow> Answer option" where
  "first_answer d qid sid = find (\<lambda>a. a_question_id a = qid \<and> a_sid a = sid) (answers d)"

section \<open>\<open>decode_code\<close>\<close>

text \<open>
  The four \<open>ValueError\<close>s of \<open>decode_code\<close>, told apart by their messages, in the
  order of the checks.
\<close>

datatype decode_error =
    SidOutOfRange
  | SuffixOutOfRange
  | UnknownSeed
  | OptionIndexOutOfRange

definition decode_code :: "db \<Rightarrow> int \<Rightarrow> Question \<Rightarrow> decode_error + (int \<times> int)" where
  "decode_code d code_int question =
     (let n = int (length (options question));
          sid = code_int div 100;
          b = code_int mod 100
      in if sid < MIN_SID \<or> sid > MAX_SID then Inl SidOutOfRange
         else if b < 1 \<or> b > 99 then Inl SuffixOutOfRange
         else case get_seed d sid of
                None \<Rightarrow> Inl UnknownSeed
              | Some seed \<Rightarrow>
                  (let option_index = b - sd_r seed
                   in if option_index < 1 \<or> option_index > n then Inl OptionIndexOutOfRange
                      else Inr (sid, option_index)))"

section \<open>\<open>ensure_student_exists\<close>\<close>

text \<open>\<open>func.min(Student.score)\<close>: \<open>None\<close> on an empty table.\<close>

definition min_score :: "db \<Rightarrow> real option" where
  "min_score d =
     (case students d of [] \<Rightarrow> None | s # ss \<Rightarrow> Some (fold (\<lambda>x m. min (st_score x) m) ss (st_score s)))"

definition ensure_student_exists :: "db \<Rightarrow> int \<Rightarrow> datetime \<Rightarrow> db \<times> Student" where
  "ensure_student_exists d sid t =
     (case get_student d sid of
        Some student \<Rightarrow> (d, student)
      | None \<Rightarrow>
          (let min_score = (case min_score d of None \<Rightarrow> 0 | Some m \<Rightarrow> m);
               student = \<lparr>st_sid = sid, st_score = min_score, st_created_at = t\<rparr>
           in (d\<lparr>students := students d @ [student]\<rparr>, student)))"

section \<open>\<open>stats_for_question\<close>\<close>

record stats =
  stat_options :: "string list"
  by_option :: "(int \<times> int list) list"
  answered_count :: nat
  missing :: "int list"

definition stats_for_question :: "db \<Rightarrow> Question \<Rightarrow> stats" where
  "stats_for_question d question =
     (let opts = options question;
          anss = filter (\<lambda>a. a_question_id a = q_id question) (answers d);
          answered = remdups (map a_sid anss)
      in \<lparr>stat_options = opts,
          by_option = map (\<lambda>i. (i, map a_sid (filter (\<lambda>a. a_option_index a = i) anss)))
                        [1 .. int (length opts)],
          answered_count = length answered,
          missing = filter (\<lambda>sid. \<not> List.member answered sid) [MIN_SID .. MAX_SID]\<rparr>)"

section \<open>\<open>submit_code\<close>\<close>

text \<open>
  The replies of the JSON endpoint: the error text with its status, or the success
  record. The constructors of \<open>submit_error\<close> stand for the distinct error texts;
  \<open>UncaughtError\<close> is the reply, with status 500, to an exception nothing catches.
\<close>

datatype submit_error =
    NoActiveQuestion
  | QuestionAlreadySettled
  | MalformedCipher
  | DecodeFailed decode_error
  | DuplicateSubmission int
  | UncaughtError

record submit_ok =
  ok_sid :: int
  ok_option_index :: int
  ok_option_text :: string
  ok_answered_count :: nat
  ok_missing_count :: nat
  ok_timestamp :: datetime

text \<open>
  \<open>code\<close> is \<open>str(payload.get("code", ""))\<close> and \<open>t\<close> the clock reading of the
  request. The result is the store after the request and the reply with its status.
\<close>

definition submit_code :: "db \<Rightarrow> string \<Rightarrow> datetime \<Rightarrow> db \<times> (submit_error \<times> nat + submit_ok)" where
  "submit_code d code t =
     (case get_active_question d of
        None \<Rightarrow> (d, Inl (NoActiveQuestion, 400))
      | Some q \<Rightarrow>
          if q_settled_at q \<noteq> None then (d, Inl (QuestionAlreadySettled, 409))
          else
            (let code_raw = strip code
             in if \<not> str_isdigit code_raw then (d, Inl (MalformedCipher, 400))
                else if \<not> isdigit code_raw then (d, Inl (UncaughtError, 500))
                else
                  (let code_int = int_of_digits code_raw
                   in case decode_code d code_int q of
                        Inl e \<Rightarrow> (d, Inl (DecodeFailed e, 400))
                      | Inr (sid, option_index) \<Rightarrow>
                          (let d1 = fst (ensure_student_exists d sid t)
                           in case first_answer d1 (q_id q) sid of
                                Some existing \<Rightarrow> (d1, Inl (DuplicateSubmission sid, 409))
                              | None \<Rightarrow>
                                  (let a = \<lparr>a_id = next_id (map a_id (answers d1)), a_sid = sid,
                                            a_question_id = q_id q, a_option_index = option_index,
                                            a_code = code_int, a_timestamp = t, a_score_change = 0\<rparr>;
                                       d2 = d1\<lparr>answers := answers d1 @ [a]\<rparr>;
                                       stat = stats_for_question d2 q;
                                       option_text =
                                         (if 1 \<le> option_index \<and> option_index \<le> int (length (stat_options stat))
                                          then stat_options stat ! nat (option_index - 1) else [])
                                   in (d2, Inr \<lparr>ok_sid = sid, ok_option_index = option_index,
                                                ok_option_text = option_text,
                                                ok_answered_count = answered_count stat,
                                                ok_missing_count = length (missing stat),
                                                ok_timestamp = a_timestamp a\<rparr>))))))"

section \<open>The form endpoints\<close>

text \<open>
  The form endpoints answer with a redirect, most after a \<open>flash\<close>; the
  constructors of \<open>flash\<close> stand for the distinct messages, with the values they
  show. \<open>NotFound404\<close> is the abort of \<open>get_or_404\<close>, \<open>ServerError500\<close> the
  reply to an exception nothing catches: the \<open>ValueError\<close> of \<open>int\<close> on a field
  it cannot convert, or the \<open>OverflowError\<close> of a lookup by a key too large to bind.
\<close>

datatype page = Operator | Results int | Presets

datatype flash =
    NoActive
  | SidNotNumber
  | SubmissionNotFound int
  | SubmissionDeleted int
  | OptionsAbnormal
  | ShrinkRejected
  | BelowMaxUsed int
  | OptionsUpdated
  | MissingQuestionId
  | QuestionMissing
  | OptionInvalid
  | ScoredOption int real
  | SidInvalid
  | ScoredStudent int real
  | ScoredProb int real
  | UnknownAction
  | PresetMissing
  | Published string

datatype reply = Redirect "flash option" page | NotFound404 | ServerError500

text \<open>\<open>db.session.delete(a)\<close>: the row with the primary key of \<open>a\<close> goes.\<close>

definition delete_answer :: "db \<Rightarrow> Answer \<Rightarrow> db" where
  "delete_answer d a = d\<lparr>answers := filter (\<lambda>x. a_id x \<noteq> a_id a) (answers d)\<rparr>"

subsection \<open>\<open>delete_submission\<close> and \<open>delete_submission_for_question\<close>\<close>

definition delete_submission :: "db \<Rightarrow> string \<Rightarrow> db \<times> reply" where
  "delete_submission d sid_field =
     (case get_active_question d of
        None \<Rightarrow> (d, Redirect (Some NoActive) Operator)
      | Some q \<Rightarrow>
          (let sid_raw = strip sid_field
           in if \<not> str_isdigit sid_raw then (d, Redirect (Some SidNotNumber) Operator)
              else if \<not> isdigit sid_raw then (d, ServerError500)
              else
                (let sid = int_of_digits sid_raw
                 in case first_answer d (q_id q) sid of
                      None \<Rightarrow>
                        if bind_overflow sid then (d, ServerError500)
                        else (d, Redirect (Some (SubmissionNotFound sid)) Operator)
                    | Some a \<Rightarrow>
                        (delete_answer d a, Redirect (Some (SubmissionDeleted sid)) Operator))))"

definition delete_submission_for_question :: "db \<Rightarrow> int \<Rightarrow> string \<Rightarrow> string \<Rightarrow> db \<times> reply" where
  "delete_submission_for_question d qid sid_field next_field =
     (case get_question d qid of
        None \<Rightarrow> if bind_overflow qid then (d, ServerError500) else (d, NotFound404)
      | Some q \<Rightarrow>
          (let sid_raw = strip sid_field;
               next_page = strip next_field;
               back = (if next_page = ''results'' then Results (q_id q) else Operator)
           in if \<not> str_isdigit sid_raw then (d, Redirect (Some SidNotNumber) back)
              else if \<not> isdigit sid_raw then (d, ServerError500)
              else
                (let sid = int_of_digits sid_raw
                 in case first_answer d (q_id q) sid of
                      None \<Rightarrow>
                        if bind_overflow sid then (d, ServerError500)
                        else (d, Redirect (Some (SubmissionNotFound sid)) back)
                    | Some a \<Rightarrow>
                        (delete_answer d a, Redirect (Some (SubmissionDeleted sid)) back))))"

subsection \<open>\<open>edit_options_for_question\<close>\<close>

text \<open>
  The list the endpoint builds before its checks (the loop over the old options and the
  appended lines). \<open>opt i\<close> is the field \<open>opt\<close>\<^emph>\<open>i\<close> of the form, empty when
  absent; \<open>append_split\<close> is \<open>append_raw.splitlines()\<close>.
\<close>

definition new_options_of :: "string list \<Rightarrow> (nat \<Rightarrow> string) \<Rightarrow> string list \<Rightarrow> string list" where
  "new_options_of old_options opt append_split =
     (let new_options =
            map (\<lambda>(i, old_text). let t = strip (opt i) in if t \<noteq> [] then t else old_text)
              (zip [1 ..< Suc (length old_options)] old_options);
          append_lines = filter (\<lambda>l. l \<noteq> []) (map strip append_split)
      in if append_lines \<noteq> [] then
           (let remaining = 10 - int (length new_options)
            in if remaining > 0 then new_options @ take (nat remaining) append_lines
               else new_options)
         else new_options)"

text \<open>\<open>func.max(Answer.option_index)\<close> over the answers of a question, 0 when there is none.\<close>

definition max_used_of :: "db \<Rightarrow> int \<Rightarrow> int" where
  "max_used_of d qid =
     (case map a_option_index (filter (\<lambda>a. a_question_id a = qid) (answers d)) of
        [] \<Rightarrow> 0
      | k # ks \<Rightarrow> fold max ks k)"

definition edit_options_for_question ::
  "db \<Rightarrow> int \<Rightarrow> (nat \<Rightarrow> string) \<Rightarrow> string list \<Rightarrow> string \<Rightarrow> db \<times> reply" where
  "edit_options_for_question d qid opt append_split next_field =
     (case get_question d qid of
        None \<Rightarrow> if bind_overflow qid then (d, ServerError500) else (d, NotFound404)
      | Some q \<Rightarrow>
          (let old_options = options q;
               old_n = length old_options
           in if old_n < 1 then (d, Redirect (Some OptionsAbnormal) Operator)
              else
                (let new_options = new_options_of old_options opt append_split
                 in if length new_options < old_n then (d, Redirect (Some ShrinkRejected) Operator)
                    else
                      (let max_used = max_used_of d (q_id q)
                       in if max_used > int (length new_options)
                          then (d, Redirect (Some (BelowMaxUsed max_used)) Operator)
                          else
                            (d\<lparr>questions :=
                                 map (\<lambda>x. if q_id x = q_id q
                                           then x\<lparr>q_options_json := json_dumps new_options\<rparr> else x)
                                   (questions d)\<rparr>,
                             Redirect (Some OptionsUpdated)
                               (if strip next_field = ''results'' then Results (q_id q)
                                else Operator))))))"

subsection \<open>\<open>settle_question\<close>\<close>

definition settle_question :: "db \<Rightarrow> datetime \<Rightarrow> db \<times> reply" where
  "settle_question d t =
     (case get_active_question d of
        None \<Rightarrow> (d, Redirect (Some NoActive) Operator)
      | Some q \<Rightarrow>
          (d\<lparr>questions :=
               map (\<lambda>x. if q_id x = q_id q then x\<lparr>q_settled_at := Some t\<rparr> else x) (questions d)\<rparr>,
           Redirect None (Results (q_id q))))"

subsection \<open>\<open>score_actions\<close>\<close>

text \<open>
  The form of a scoring request. \<open>f_option_index\<close> and \<open>f_sid\<close> are the values of
  \<open>int(request.form.get(name, "0") or 0)\<close>, \<open>None\<close> when \<open>int\<close> raises; the four
  numbers are the values of \<open>parse_float\<close>.
\<close>

record score_form =
  f_question_id :: string
  f_next :: string
  f_action_type :: string
  f_option_index :: "int option"
  f_sid :: "int option"
  f_change :: real
  f_prob_percent :: real
  f_change1 :: real
  f_change2 :: real

text \<open>\<open>s.score += change\<close> and \<open>a.score_change += change\<close>, on the rows with those keys.\<close>

definition add_score :: "db \<Rightarrow> int \<Rightarrow> real \<Rightarrow> db" where
  "add_score d sid change =
     d\<lparr>students := map (\<lambda>s. if st_sid s = sid then s\<lparr>st_score := st_score s + change\<rparr> else s)
                      (students d)\<rparr>"

definition add_score_change :: "db \<Rightarrow> int \<Rightarrow> real \<Rightarrow> db" where
  "add_score_change d aid change =
     d\<lparr>answers := map (\<lambda>a. if a_id a = aid then a\<lparr>a_score_change := a_score_change a + change\<rparr> else a)
                     (answers d)\<rparr>"

text \<open>What the actions A and C do for one answer, with the change they apply.\<close>

definition apply_change :: "datetime \<Rightarrow> real \<Rightarrow> Answer \<Rightarrow> db \<Rightarrow> db" where
  "apply_change t change a d =
     (let (d1, s) = ensure_student_exists d (a_sid a) t
      in add_score_change (add_score d1 (st_sid s) change) (a_id a) change)"

text \<open>
  The loop of action C. \<open>rnd i\<close> is what the \<open>i\<close>-th call of \<open>random.random()\<close>
  of the request returns.
\<close>

fun score_loop_prob ::
  "(nat \<Rightarrow> real) \<Rightarrow> nat \<Rightarrow> real \<Rightarrow> real \<Rightarrow> real \<Rightarrow> datetime \<Rightarrow> Answer list \<Rightarrow> db \<Rightarrow> db" where
  "score_loop_prob rnd i prob change1 change2 t [] d = d"
| "score_loop_prob rnd i prob change1 change2 t (a # as) d =
     score_loop_prob rnd (Suc i) prob change1 change2 t as
       (if rnd i < prob then apply_change t change1 a d else apply_change t change2 a d)"

definition answers_on_option :: "db \<Rightarrow> int \<Rightarrow> int \<Rightarrow> Answer list" where
  "answers_on_option d qid option_index =
     filter (\<lambda>a. a_question_id a = qid \<and> a_option_index a = option_index) (answers d)"

definition score_actions :: "db \<Rightarrow> score_form \<Rightarrow> (nat \<Rightarrow> real) \<Rightarrow> datetime \<Rightarrow> db \<times> reply" where
  "score_actions d form rnd t =
     (let qid_raw = strip (f_question_id form);
          next_page = strip (f_next form);
          go_back = (\<lambda>qid. case qid of
                              Some k \<Rightarrow> if next_page = ''results'' then Results k else Operator
                            | None \<Rightarrow> Operator)
      in if \<not> str_isdigit qid_raw then (d, Redirect (Some MissingQuestionId) (go_back None))
         else if \<not> isdigit qid_raw then (d, ServerError500)
         else
           (let qid = int_of_digits qid_raw
            in case get_question d qid of
                 None \<Rightarrow>
                   if bind_overflow qid then (d, ServerError500)
                   else (d, Redirect (Some QuestionMissing) (go_back None))
               | Some q \<Rightarrow>
                   (let action_type = strip (f_action_type form);
                        n = int (length (options q))
                    in if action_type = ''A'' then
                         (case f_option_index form of
                            None \<Rightarrow> (d, ServerError500)
                          | Some option_index \<Rightarrow>
                              (let change = f_change form
                               in if option_index < 1 \<or> option_index > n
                                  then (d, Redirect (Some OptionInvalid) (go_back (Some (q_id q))))
                                  else
                                    (fold (apply_change t change)
                                       (answers_on_option d (q_id q) option_index) d,
                                     Redirect (Some (ScoredOption option_index change))
                                       (go_back (Some (q_id q))))))
                       else if action_type = ''B'' then
                         (case f_sid form of
                            None \<Rightarrow> (d, ServerError500)
                          | Some sid \<Rightarrow>
                              (let change = f_change form
                               in if sid < MIN_SID \<or> sid > MAX_SID
                                  then (d, Redirect (Some SidInvalid) (go_back (Some (q_id q))))
                                  else
                                    (let (d1, s) = ensure_student_exists d sid t;
                                         d2 = add_score d1 (st_sid s) change;
                                         d3 = (case first_answer d2 (q_id q) sid of
                                                 Some a \<Rightarrow> add_score_change d2 (a_id a) change
                                               | None \<Rightarrow> d2)
                                     in (d3, Redirect (Some (ScoredStudent sid change))
                                               (go_back (Some (q_id q)))))))
                       else if action_type = ''C'' then
                         (case f_option_index form of
                            None \<Rightarrow> (d, ServerError500)
                          | Some option_index \<Rightarrow>
                              (let prob_percent = f_prob_percent form;
                                   prob = max 0 (min 1 (prob_percent / 100));
                                   change1 = f_change1 form;
                                   change2 = f_change2 form
                               in if option_index < 1 \<or> option_index > n
                                  then (d, Redirect (Some OptionInvalid) (go_back (Some (q_id q))))
                                  else
                                    (score_loop_prob rnd 0 prob change1 change2 t
                                       (answers_on_option d (q_id q) option_index) d,
                                     Redirect (Some (ScoredProb option_index prob_percent))
                                       (go_back (Some (q_id q))))))
                       else (d, Redirect (Some UnknownAction) (go_back (Some (q_id q)))))))"

subsection \<open>\<open>start_preset\<close>\<close>

text \<open>An entry of the list \<open>load_presets\<close> returns, which \<open>start_preset\<close> takes as it is.\<close>

record preset =
  p_id :: string
  p_content :: string
  p_options :: "string list"

definition start_preset :: "db \<Rightarrow> preset list \<Rightarrow> string \<Rightarrow> datetime \<Rightarrow> db \<times> reply" where
  "start_preset d presets_list preset_id_field t =
     (let preset_id = strip preset_id_field
      in case find (\<lambda>p. p_id p = preset_id) presets_list of
           None \<Rightarrow> (d, Redirect (Some PresetMissing) Presets)
         | Some preset \<Rightarrow>
             (let deactivated =
                    map (\<lambda>x. if q_is_active x then x\<lparr>q_is_active := False\<rparr> else x) (questions d);
                  q = \<lparr>q_id = next_id (map q_id (questions d)),
                       q_preset_id = Some (p_id preset),
                       q_content = p_content preset,
                       q_options_json = json_dumps (p_options preset),
                       q_is_active = True,
                       q_created_at = t,
                       q_settled_at = None\<rparr>
              in (d\<lparr>questions := deactivated @ [q]\<rparr>, Redirect (Some (Published (p_id preset))) Operator)))"

subsection \<open>\<open>ensure_seeds\<close>\<close>

text \<open>
  \<open>draw sid\<close> is what \<open>random.randint(0, 89)\<close> returns in the iteration for
  \<open>sid\<close>; an id that has a seed draws nothing.
\<close>

definition ensure_seeds :: "db \<Rightarrow> (int \<Rightarrow> int) \<Rightarrow> db" where
  "ensure_seeds d draw =
     (let existing = map sd_sid (seeds d)
      in d\<lparr>seeds := seeds d @
             map (\<lambda>sid. \<lparr>sd_sid = sid, sd_r = draw sid\<rparr>)
               (filter (\<lambda>sid. \<not> List.member existing sid) [MIN_SID .. MAX_SID])\<rparr>)"

section \<open>A class of three\<close>

text \<open>
  The stores the theorems below are tried on: three students with the offsets 5, 10 and
  20 and one active question with three options (\<open>class0\<close>); the same class once
  student 2, who holds 3 points, has handed in 213 (\<open>class1\<close>); that class with the
  question settled (\<open>class2\<close>); and a store whose only answer names option 5 of the
  three (\<open>class_stale\<close>).
\<close>

definition seeds3 :: "Seed list" where
  "seeds3 = [\<lparr>sd_sid = 1, sd_r = 5\<rparr>, \<lparr>sd_sid = 2, sd_r = 10\<rparr>, \<lparr>sd_sid = 3, sd_r = 20\<rparr>]"

definition question3 :: Question where
  "question3 = \<lparr>q_id = 1, q_preset_id = Some ''p1'', q_content = ''which'',
     q_options_json = Json_list [''x'', ''y'', ''z''], q_is_active = True, q_created_at = 0,
     q_settled_at = None\<rparr>"

definition answer213 :: Answer where
  "answer213 = \<lparr>a_id = 1, a_sid = 2, a_question_id = 1, a_option_index = 3, a_code = 213,
     a_timestamp = 4, a_score_change = 0\<rparr>"

definition student2 :: Student where
  "student2 = \<lparr>st_sid = 2, st_score = 3, st_created_at = 4\<rparr>"

definition class0 :: db where
  "class0 = \<lparr>seeds = seeds3, students = [], questions = [question3], answers = []\<rparr>"

definition class1 :: db where
  "class1 = \<lparr>seeds = seeds3, students = [student2], questions = [question3], answers = [answer213]\<rparr>"

definition class2 :: db where
  "class2 = class1\<lparr>questions := [question3\<lparr>q_settled_at := Some 5\<rparr>]\<rparr>"

definition class_stale :: db where
  "class_stale = class1\<lparr>answers := [answer213\<lparr>a_option_index := 5\<rparr>]\<rparr>"

definition preset2 :: preset where
  "preset2 = \<lparr>p_id = ''p2'', p_content = ''next'', p_options = [''u'', ''v'']\<rparr>"

text \<open>A scoring form for question 1: action C on option 3, 2 points on success, -1 otherwise.\<close>

definition form_C :: score_form where
  "form_C = \<lparr>f_question_id = ''1'', f_next = ''results'', f_action_type = ''C'',
     f_option_index = Some 3, f_sid = Some 0, f_change = 0, f_prob_percent = 0,
     f_change1 = 2, f_change2 = - 1\<rparr>"

definition half :: "nat \<Rightarrow> real" where
  "half i = 1 / 2"

section \<open>Digits\<close>

lemma isdigit_str_isdigit [simp]: "isdigit s \<Longrightarrow> str_isdigit s"
  by (auto simp: isdigit_def str_isdigit_def list_all_iff)

section \<open>Values on the class of three\<close>

lemma strip_106: "strip ''106'' = ''106''"
  by (simp add: strip_def isspace_def)

lemma strip_1: "strip ''1'' = ''1''"
  by (simp add: strip_def isspace_def)

lemma strip_B: "strip ''B'' = ''B''"
  by (simp add: strip_def isspace_def)

lemma int_106: "int_of_digits ''106'' = 106"
  by (simp add: int_of_digits_def)

lemma int_1: "int_of_digits ''1'' = 1"
  by (simp add: int_of_digits_def)

lemma isdigit_106: "isdigit ''106''"
  by (simp add: isdigit_def)

lemma isdigit_1: "isdigit ''1''"
  by (simp add: isdigit_def)

lemma active_class1: "get_active_question class1 = Some question3"
  by (simp add: get_active_question_def class1_def question3_def)

lemma question_class1: "get_question class1 1 = Some question3"
  by (simp add: get_question_def class1_def question3_def)

lemma decode_106: "decode_code class1 106 question3 = Inr (1, 1)"
  by (simp add: decode_code_def class1_def seeds3_def question3_def get_seed_def options_def
      MIN_SID_def MAX_SID_def)

lemma strip_213: "strip ''213'' = ''213''"
  by (simp add: strip_def isspace_def)

lemma int_213: "int_of_digits ''213'' = 213"
  by (simp add: int_of_digits_def)

lemma isdigit_213: "isdigit ''213''"
  by (simp add: isdigit_def)

lemma decode_213: "decode_code class1 213 question3 = Inr (2, 3)"
  by (simp add: decode_code_def class1_def seeds3_def question3_def get_seed_def options_def
      MIN_SID_def MAX_SID_def)

lemma strip_2: "strip ''2'' = ''2''"
  by (simp add: strip_def isspace_def)

lemma int_2: "int_of_digits ''2'' = 2"
  by (simp add: int_of_digits_def)

lemma isdigit_2: "isdigit ''2''"
  by (simp add: isdigit_def)

lemma active_class2: "get_active_question class2 = Some (question3\<lparr>q_settled_at := Some 5\<rparr>)"
  by (simp add: get_active_question_def class2_def question3_def)

lemma question_class2: "get_question class2 1 = Some (question3\<lparr>q_settled_at := Some 5\<rparr>)"
  by (simp add: get_question_def class2_def question3_def)

lemma new_options_of_no_append:
  "new_options_of [''x'', ''y'', ''z''] (\<lambda>i. []) [] = [''x'', ''y'', ''z'']"
proof -
  have "[1 ..< Suc (length [''x'', ''y'', ''z''])] = [1, 2, 3]"
    by (simp add: upt_rec)
  then show ?thesis
    unfolding new_options_of_def by (simp add: strip_def)
qed

lemma question_class_stale: "get_question class_stale 1 = Some question3"
  by (simp add: get_question_def class_stale_def class1_def question3_def)

lemma strip_C: "strip ''C'' = ''C''"
  by (simp add: strip_def isspace_def)

section \<open>Decoding\<close>

lemma decode_roundtrip_in_field:
  assumes "MIN_SID \<le> sid" "sid \<le> MAX_SID" "get_seed d sid = Some seed"
    "0 \<le> sd_r seed" "sd_r seed + i \<le> 99" "1 \<le> i" "i \<le> int (length (options q))"
  shows "decode_code d (sid * 100 + sd_r seed + i) q = Inr (sid, i)"
proof -
  let ?c = "sid * 100 + sd_r seed + i"
  have b: "0 \<le> sd_r seed + i" "sd_r seed + i < 100" using assms by arith+
  have c: "?c = (sd_r seed + i) + sid * 100" by simp
  have dv: "?c div 100 = sid"
    unfolding c using b by (simp add: div_pos_pos_trivial)
  have md: "?c mod 100 = sd_r seed + i"
    unfolding c using b by (simp add: mod_pos_pos_trivial)
  show ?thesis
    unfolding decode_code_def Let_def dv md using assms b by simp
qed

text \<open>
  The ranges the round trip needs are the ones the program keeps: \<open>ensure_seeds\<close>
  only adds offsets it drew from 0..89, and an edit never takes a list of at most 10
  options beyond 10.
\<close>

lemma ensure_seeds_range:
  assumes "\<forall>sid. 0 \<le> draw sid \<and> draw sid \<le> 89"
    and "\<forall>s\<in>set (seeds d). 0 \<le> sd_r s \<and> sd_r s \<le> 89"
  shows "\<forall>s\<in>set (seeds (ensure_seeds d draw)). 0 \<le> sd_r s \<and> sd_r s \<le> 89"
  using assms by (auto simp: ensure_seeds_def Let_def)

lemma new_options_of_cap:
  assumes "length old_options \<le> 10"
  shows "length (new_options_of old_options opt append_split) \<le> 10"
proof -
  define base where "base =
     map (\<lambda>(i, old_text). let t = strip (opt i) in if t \<noteq> [] then t else old_text)
       (zip [1 ..< Suc (length old_options)] old_options)"
  have lb: "length base = length old_options"
    unfolding base_def by (simp only: length_map length_zip length_upt diff_Suc_1 min.idem)
  have "new_options_of old_options opt append_split =
     (if filter (\<lambda>l. l \<noteq> []) (map strip append_split) \<noteq> [] then
        (if 10 - int (length base) > 0
         then base @ take (nat (10 - int (length base))) (filter (\<lambda>l. l \<noteq> []) (map strip append_split))
         else base)
      else base)"
    unfolding new_options_of_def base_def by (simp only: Let_def)
  then show ?thesis using lb assms by (auto simp: min_def)
qed

text \<open>
  C1. A student id from 1 to 64 with a seed offset \<open>r\<close> (an offset is from 0 to 89) and
  an option index from 1 to the number of options of the question (a question has at
  most 10): decoding \<open>sid * 100 + r + option_index\<close> gives back \<open>(sid, option_index)\<close>.
\<close>

theorem decode_code_roundtrip:
  assumes "1 \<le> sid" "sid \<le> 64" "get_seed d sid = Some seed"
    "0 \<le> sd_r seed" "sd_r seed \<le> 89"
    "length (options q) \<le> 10"
    "1 \<le> option_index" "option_index \<le> int (length (options q))"
  shows "decode_code d (sid * 100 + sd_r seed + option_index) q = Inr (sid, option_index)"
  using assms by (intro decode_roundtrip_in_field) (simp_all add: MIN_SID_def MAX_SID_def)

theorem decode_code_roundtrip_witness:
  "get_seed class0 2 = Some \<lparr>sd_sid = 2, sd_r = 10\<rparr> \<and> length (options question3) = 3 \<and>
   decode_code class0 213 question3 = Inr (2, 3)"
  using decode_code_roundtrip [of 2 class0 "\<lparr>sd_sid = 2, sd_r = 10\<rparr>" question3 3]
  by (simp add: class0_def seeds3_def question3_def get_seed_def options_def)

text \<open>
  C4. A cipher whose high part \<open>cipher div 100\<close> is outside 1..64 fails with
  \<open>SidOutOfRange\<close>, whatever its low part; one whose high part is in range and whose
  low part \<open>cipher mod 100\<close> is outside 1..99 fails with \<open>SuffixOutOfRange\<close>.
  \<open>decode_code\<close> only returns a value, and a submission whose decoding fails leaves
  the store as it was.
\<close>

theorem decode_code_range_errors:
  "(code_int div 100 < 1 \<or> code_int div 100 > 64 \<longrightarrow> decode_code d code_int q = Inl SidOutOfRange) \<and>
   (1 \<le> code_int div 100 \<and> code_int div 100 \<le> 64 \<and> (code_int mod 100 < 1 \<or> code_int mod 100 > 99)
      \<longrightarrow> decode_code d code_int q = Inl SuffixOutOfRange) \<and>
   (decode_code d code_int q = Inl e \<and> get_active_question d = Some q \<and> q_settled_at q = None \<and>
    isdigit (strip code) \<and> int_of_digits (strip code) = code_int
      \<longrightarrow> submit_code d code t = (d, Inl (DecodeFailed e, 400)))"
  by (auto simp: decode_code_def submit_code_def MIN_SID_def MAX_SID_def Let_def)

theorem decode_code_range_errors_witness:
  "decode_code class0 6500 question3 = Inl SidOutOfRange \<and>
   decode_code class0 200 question3 = Inl SuffixOutOfRange \<and>
   get_active_question class0 = Some question3 \<and> int_of_digits (strip '' 200'') = 200 \<and>
   submit_code class0 '' 200'' 7 = (class0, Inl (DecodeFailed SuffixOutOfRange, 400))"
  using decode_code_range_errors [of 6500 class0 question3 SuffixOutOfRange "'' 200''" 7]
    decode_code_range_errors [of 200 class0 question3 SuffixOutOfRange "'' 200''" 7]
  by (simp add: class0_def question3_def get_active_question_def strip_def isspace_def
      isdigit_def int_of_digits_def)

section \<open>Publishing\<close>

lemma deactivated_eq:
  "map (\<lambda>x. if q_is_active x then x\<lparr>q_is_active := False\<rparr> else x) qs
   = map (\<lambda>x. x\<lparr>q_is_active := False\<rparr>) qs"
  by (induction qs) auto

text \<open>
  C3. A publish (\<open>start_preset\<close> with a preset that exists) leaves every question
  that was there as it was but for \<open>is_active\<close>, which is false, and adds one question,
  active and not settled: that one is the only active question, and the settle
  timestamps of the others are the ones they had.
\<close>

theorem start_preset_one_active:
  assumes "find (\<lambda>p. p_id p = strip preset_id_field) presets_list = Some preset"
  shows "\<exists>q. questions (fst (start_preset d presets_list preset_id_field t))
               = map (\<lambda>x. x\<lparr>q_is_active := False\<rparr>) (questions d) @ [q] \<and>
             q_is_active q \<and> q_settled_at q = None \<and>
             filter q_is_active (questions (fst (start_preset d presets_list preset_id_field t))) = [q] \<and>
             map q_settled_at (take (length (questions d))
                  (questions (fst (start_preset d presets_list preset_id_field t))))
               = map q_settled_at (questions d)"
  using assms
  by (simp add: start_preset_def Let_def deactivated_eq o_def filter_empty_conv)

theorem start_preset_one_active_witness:
  "find (\<lambda>p. p_id p = strip ''p2 '') [preset2] = Some preset2 \<and>
   map q_is_active (questions (fst (start_preset class2 [preset2] ''p2 '' 9))) = [False, True] \<and>
   map q_settled_at (questions (fst (start_preset class2 [preset2] ''p2 '' 9))) = [Some 5, None]"
proof -
  have h: "find (\<lambda>p. p_id p = strip ''p2 '') [preset2] = Some preset2"
    by (simp add: preset2_def strip_def isspace_def)
  from start_preset_one_active [OF h, of class2 9] obtain q where
    "questions (fst (start_preset class2 [preset2] ''p2 '' 9))
       = map (\<lambda>x. x\<lparr>q_is_active := False\<rparr>) (questions class2) @ [q]"
    "q_is_active q" "q_settled_at q = None"
    by blast
  with h show ?thesis
    by (simp add: class2_def class1_def question3_def)
qed

section \<open>Students created on demand\<close>

lemma fold_min_Min:
  "fold (\<lambda>x m. min (f x) m) xs (a::real) = Min (insert a (f ` set xs))"
proof (induction xs arbitrary: a)
  case Nil
  show ?case by simp
next
  case (Cons x xs)
  have "Min (insert (min (f x) a) (f ` set xs)) = Min (insert a (insert (f x) (f ` set xs)))"
    by (cases "f ` set xs = {}") (simp_all add: min.commute min.left_commute)
  with Cons show ?case by simp
qed

lemma min_score_Min:
  "students d \<noteq> [] \<Longrightarrow> min_score d = Some (Min (st_score ` set (students d)))"
  by (cases "students d") (simp_all add: min_score_def fold_min_Min)

lemma min_score_empty: "students d = [] \<Longrightarrow> min_score d = None"
  by (simp add: min_score_def)

lemma ensure_student_exists_absent:
  assumes "get_student d sid = None"
    and "m = (if students d = [] then 0 else Min (st_score ` set (students d)))"
  shows "ensure_student_exists d sid t =
     (d\<lparr>students := students d @ [\<lparr>st_sid = sid, st_score = m, st_created_at = t\<rparr>]\<rparr>,
      \<lparr>st_sid = sid, st_score = m, st_created_at = t\<rparr>)"
  using assms
  by (cases "students d = []")
     (simp_all add: ensure_student_exists_def Let_def min_score_Min min_score_empty)

lemma ensure_student_exists_present:
  "get_student d sid = Some s \<Longrightarrow> ensure_student_exists d sid t = (d, s)"
  by (simp add: ensure_student_exists_def)

lemma ensure_student_exists_frame:
  "\<exists>ss. fst (ensure_student_exists d sid t) = d\<lparr>students := ss\<rparr>"
proof (cases "get_student d sid")
  case None
  then show ?thesis by (auto simp: ensure_student_exists_def Let_def)
next
  case (Some s)
  then have "fst (ensure_student_exists d sid t) = d\<lparr>students := students d\<rparr>"
    by (simp add: ensure_student_exists_def)
  then show ?thesis by blast
qed

lemma first_answer_students [simp]:
  "first_answer (d\<lparr>students := ss\<rparr>) qid sid = first_answer d qid sid"
  by (simp add: first_answer_def)

lemma submit_code_ok:
  assumes "get_active_question d = Some q" "q_settled_at q = None" "isdigit (strip code)"
    "decode_code d (int_of_digits (strip code)) q = Inr (sid, i)"
    "first_answer d (q_id q) sid = None"
  shows "fst (submit_code d code t) =
     (fst (ensure_student_exists d sid t))
       \<lparr>answers := answers d @
          [\<lparr>a_id = next_id (map a_id (answers d)), a_sid = sid, a_question_id = q_id q,
            a_option_index = i, a_code = int_of_digits (strip code), a_timestamp = t,
            a_score_change = 0\<rparr>]\<rparr>"
proof -
  obtain ss where e: "fst (ensure_student_exists d sid t) = d\<lparr>students := ss\<rparr>"
    using ensure_student_exists_frame by blast
  show ?thesis using assms by (simp add: submit_code_def Let_def e)
qed

text \<open>
  C6. When \<open>ensure_student_exists\<close> finds no row for \<open>sid\<close>, it appends one whose
  score is the least score in the table, 0 in an empty table, and leaves every other row
  of the store as it was. A submission that is accepted creates the student so; the
  per-student scoring action creates the student so and then adds its change to that
  score.
\<close>

theorem lazy_student_min_score:
  assumes "get_student d sid = None"
    and "m = (if students d = [] then 0 else Min (st_score ` set (students d)))"
  shows "ensure_student_exists d sid t =
           (d\<lparr>students := students d @ [\<lparr>st_sid = sid, st_score = m, st_created_at = t\<rparr>]\<rparr>,
            \<lparr>st_sid = sid, st_score = m, st_created_at = t\<rparr>) \<and>
         (get_active_question d = Some q \<and> q_settled_at q = None \<and> isdigit (strip code) \<and>
          decode_code d (int_of_digits (strip code)) q = Inr (sid, i) \<and>
          first_answer d (q_id q) sid = None
          \<longrightarrow> students (fst (submit_code d code t))
                = students d @ [\<lparr>st_sid = sid, st_score = m, st_created_at = t\<rparr>]) \<and>
         (isdigit (strip (f_question_id form)) \<and>
          get_question d (int_of_digits (strip (f_question_id form))) = Some q' \<and>
          strip (f_action_type form) = ''B'' \<and> f_sid form = Some sid \<and> 1 \<le> sid \<and> sid \<le> 64
          \<longrightarrow> students (fst (score_actions d form rnd t))
                = students d @ [\<lparr>st_sid = sid, st_score = m + f_change form, st_created_at = t\<rparr>])"
proof -
  note e = ensure_student_exists_absent [OF assms]
  have "\<forall>s\<in>set (students d). st_sid s \<noteq> sid"
    using assms(1) by (simp add: get_student_def find_None_iff)
  then have m: "map (\<lambda>s. if st_sid s = sid then s\<lparr>st_score := st_score s + c\<rparr> else s) (students d)
                = students d" for c
    by (simp add: map_idI)
  have b: "isdigit (strip (f_question_id form)) \<and>
          get_question d (int_of_digits (strip (f_question_id form))) = Some q' \<and>
          strip (f_action_type form) = ''B'' \<and> f_sid form = Some sid \<and> 1 \<le> sid \<and> sid \<le> 64
          \<longrightarrow> students (fst (score_actions d form rnd t))
                = students d @ [\<lparr>st_sid = sid, st_score = m + f_change form, st_created_at = t\<rparr>]"
    using m
    by (auto simp: score_actions_def Let_def e MIN_SID_def MAX_SID_def
        add_score_def add_score_change_def split: option.splits)
  show ?thesis using e b by (simp add: submit_code_ok)
qed

theorem lazy_student_min_score_witness:
  "get_student class1 1 = None \<and>
   ensure_student_exists class1 1 9 =
     (class1\<lparr>students := students class1 @ [\<lparr>st_sid = 1, st_score = 3, st_created_at = 9\<rparr>]\<rparr>,
      \<lparr>st_sid = 1, st_score = 3, st_created_at = 9\<rparr>) \<and>
   decode_code class1 (int_of_digits (strip ''106'')) question3 = Inr (1, 1) \<and>
   students (fst (submit_code class1 ''106'' 9))
     = students class1 @ [\<lparr>st_sid = 1, st_score = 3, st_created_at = 9\<rparr>] \<and>
   students (fst (score_actions class1 (form_C\<lparr>f_action_type := ''B'', f_sid := Some 1, f_change := 2\<rparr>) half 9))
     = students class1 @ [\<lparr>st_sid = 1, st_score = 3 + 2, st_created_at = 9\<rparr>]"
proof -
  have a: "get_student class1 1 = None"
    by (simp add: get_student_def class1_def student2_def)
  have m: "(3::real) = (if students class1 = [] then 0 else Min (st_score ` set (students class1)))"
    by (simp add: class1_def student2_def)
  have s: "get_active_question class1 = Some question3 \<and> q_settled_at question3 = None \<and>
      isdigit (strip ''106'') \<and>
      decode_code class1 (int_of_digits (strip ''106'')) question3 = Inr (1, 1) \<and>
      first_answer class1 (q_id question3) 1 = None"
    by (simp add: strip_106 int_106 isdigit_106 active_class1 decode_106)
       (simp add: question3_def first_answer_def class1_def answer213_def)
  have b: "isdigit (strip (f_question_id (form_C\<lparr>f_action_type := ''B'', f_sid := Some 1, f_change := 2\<rparr>))) \<and>
      get_question class1 (int_of_digits (strip (f_question_id
          (form_C\<lparr>f_action_type := ''B'', f_sid := Some 1, f_change := 2\<rparr>)))) = Some question3 \<and>
      strip (f_action_type (form_C\<lparr>f_action_type := ''B'', f_sid := Some 1, f_change := 2\<rparr>)) = ''B'' \<and>
      f_sid (form_C\<lparr>f_action_type := ''B'', f_sid := Some 1, f_change := 2\<rparr>) = Some 1 \<and>
      (1::int) \<le> 1 \<and> (1::int) \<le> 64"
    by (simp add: form_C_def strip_1 strip_B isdigit_1 int_1 question_class1)
  have c: "f_change (form_C\<lparr>f_action_type := ''B'', f_sid := Some 1, f_change := 2\<rparr>) = 2"
    by simp
  from lazy_student_min_score [OF a m, of 9 question3 "''106''" 1
      "form_C\<lparr>f_action_type := ''B'', f_sid := Some 1, f_change := 2\<rparr>" question3 half]
    a s b
  show ?thesis unfolding c by blast
qed

section \<open>Submitting twice\<close>

lemma find_filter_unique:
  "distinct (map k xs) \<Longrightarrow> find (\<lambda>x. k x = v) xs = Some a \<Longrightarrow> filter (\<lambda>x. k x = v) xs = [a]"
proof (induction xs)
  case Nil
  then show ?case by simp
next
  case (Cons x xs)
  show ?case
  proof (cases "k x = v")
    case True
    with Cons.prems have "k x \<notin> k ` set xs" "x = a" by simp_all
    then have "\<forall>y\<in>set xs. k y \<noteq> v" using True by (metis image_eqI)
    then have "filter (\<lambda>x. k x = v) xs = []" by (simp add: filter_empty_conv)
    with True \<open>x = a\<close> show ?thesis by simp
  next
    case False
    with Cons show ?thesis by simp
  qed
qed

text \<open>
  Whatever the reply, a submission either leaves the table of answers as it was or appends
  one answer for a student who had none on that question; so the unique constraint is kept.
\<close>

lemma submit_code_answers:
  "answers (fst (submit_code d code t)) = answers d \<or>
   (\<exists>a. answers (fst (submit_code d code t)) = answers d @ [a] \<and> a_score_change a = 0 \<and>
        first_answer d (a_question_id a) (a_sid a) = None)"
proof -
  have e: "\<exists>ss. fst (ensure_student_exists d sid t) = d\<lparr>students := ss\<rparr>" for sid
    by (rule ensure_student_exists_frame)
  show ?thesis
  proof (cases "get_active_question d")
    case None
    then show ?thesis by (simp add: submit_code_def)
  next
    case (Some q)
    show ?thesis
    proof (cases "q_settled_at q = None \<and> isdigit (strip code)")
      case False
      with Some show ?thesis by (auto simp: submit_code_def Let_def)
    next
      case True
      show ?thesis
      proof (cases "decode_code d (int_of_digits (strip code)) q")
        case (Inl err)
        with Some True show ?thesis by (simp add: submit_code_def Let_def)
      next
        case (Inr p)
        obtain sid i where p: "p = (sid, i)" by (cases p)
        obtain ss where ss: "fst (ensure_student_exists d sid t) = d\<lparr>students := ss\<rparr>"
          using e by blast
        show ?thesis
        proof (cases "first_answer d (q_id q) sid")
          case None
          with Some True Inr p ss show ?thesis by (simp add: submit_code_def Let_def)
        next
          case (Some a)
          with \<open>get_active_question d = Some q\<close> True Inr p ss show ?thesis
            by (simp add: submit_code_def Let_def)
        qed
      qed
    qed
  qed
qed

lemma submit_code_keeps_unique:
  assumes "uq_answer_sid_question d"
  shows "uq_answer_sid_question (fst (submit_code d code t))"
proof -
  from submit_code_answers [of d code t] show ?thesis
  proof
    assume "answers (fst (submit_code d code t)) = answers d"
    with assms show ?thesis by (simp add: uq_answer_sid_question_def)
  next
    assume "\<exists>a. answers (fst (submit_code d code t)) = answers d @ [a] \<and> a_score_change a = 0 \<and>
        first_answer d (a_question_id a) (a_sid a) = None"
    then obtain a where a: "answers (fst (submit_code d code t)) = answers d @ [a]"
      and n: "first_answer d (a_question_id a) (a_sid a) = None" by blast
    from n have "\<forall>x\<in>set (answers d). (a_sid x, a_question_id x) \<noteq> (a_sid a, a_question_id a)"
      by (auto simp: first_answer_def find_None_iff)
    then have "(a_sid a, a_question_id a) \<notin> set (map (\<lambda>a. (a_sid a, a_question_id a)) (answers d))"
      by auto
    with assms a show ?thesis by (simp add: uq_answer_sid_question_def)
  qed
qed

text \<open>
  C2. While a question is active and open, a submission that decodes to a student who
  has an answer on that question is answered with \<open>DuplicateSubmission\<close> (status 409);
  the table of answers is the one before the request, and, the pair of student and
  question being unique in it, exactly the one row of the pair is there.
\<close>

theorem submit_code_duplicate:
  assumes "get_active_question d = Some q" and "q_settled_at q = None"
    and "isdigit (strip code)"
    and "decode_code d (int_of_digits (strip code)) q = Inr (sid, option_index)"
    and "first_answer d (q_id q) sid = Some a"
    and "uq_answer_sid_question d"
  shows "snd (submit_code d code t) = Inl (DuplicateSubmission sid, 409) \<and>
         answers (fst (submit_code d code t)) = answers d \<and>
         filter (\<lambda>x. a_sid x = sid \<and> a_question_id x = q_id q) (answers (fst (submit_code d code t))) = [a]"
proof -
  obtain ss where e: "fst (ensure_student_exists d sid t) = d\<lparr>students := ss\<rparr>"
    using ensure_student_exists_frame by blast
  have s: "submit_code d code t = (d\<lparr>students := ss\<rparr>, Inl (DuplicateSubmission sid, 409))"
    using assms(1-5) by (simp add: submit_code_def Let_def e)
  have "find (\<lambda>x. (a_sid x, a_question_id x) = (sid, q_id q)) (answers d) = Some a"
    using assms(5) by (simp add: first_answer_def conj_commute)
  with assms(6) have "filter (\<lambda>x. (a_sid x, a_question_id x) = (sid, q_id q)) (answers d) = [a]"
    unfolding uq_answer_sid_question_def by (rule find_filter_unique)
  with s show ?thesis by simp
qed

theorem submit_code_duplicate_witness:
  "first_answer class1 (q_id question3) 2 = Some answer213 \<and>
   uq_answer_sid_question class1 \<and>
   snd (submit_code class1 ''213'' 9) = Inl (DuplicateSubmission 2, 409) \<and>
   answers (fst (submit_code class1 ''213'' 9)) = answers class1 \<and>
   filter (\<lambda>x. a_sid x = 2 \<and> a_question_id x = q_id question3)
     (answers (fst (submit_code class1 ''213'' 9))) = [answer213]"
proof -
  have s: "q_settled_at question3 = None" by (simp add: question3_def)
  have f: "first_answer class1 (q_id question3) 2 = Some answer213"
    by (simp add: first_answer_def class1_def question3_def answer213_def)
  have u: "uq_answer_sid_question class1"
    by (simp add: uq_answer_sid_question_def class1_def)
  have i: "isdigit (strip ''213'')" by (simp add: strip_213 isdigit_213)
  have c: "decode_code class1 (int_of_digits (strip ''213'')) question3 = Inr (2, 3)"
    by (simp add: strip_213 int_213 decode_213)
  from submit_code_duplicate [OF active_class1 s i c f u, of 9] f u
  show ?thesis by blast
qed

section \<open>Editing options\<close>

lemma length_new_options_of: "length old_options \<le> length (new_options_of old_options opt append_split)"
proof -
  define base where "base =
     map (\<lambda>(i, old_text). let t = strip (opt i) in if t \<noteq> [] then t else old_text)
       (zip [1 ..< Suc (length old_options)] old_options)"
  have lb: "length base = length old_options"
    unfolding base_def by (simp only: length_map length_zip length_upt diff_Suc_1 min.idem)
  have "new_options_of old_options opt append_split =
     (if filter (\<lambda>l. l \<noteq> []) (map strip append_split) \<noteq> [] then
        (if 10 - int (length base) > 0
         then base @ take (nat (10 - int (length base))) (filter (\<lambda>l. l \<noteq> []) (map strip append_split))
         else base)
      else base)"
    unfolding new_options_of_def base_def by (simp only: Let_def)
  then show ?thesis using lb by simp
qed

text \<open>
  C7. An edit whose list of options would be shorter than the present one, or shorter
  than the largest option index an answer of the question names, is rejected with a
  message and leaves the store, hence the list of options, as it was.
\<close>

theorem edit_options_no_shrink:
  assumes "get_question d qid = Some q"
    and "length (new_options_of (options q) opt append_split) < length (options q) \<or>
         int (length (new_options_of (options q) opt append_split)) < max_used_of d (q_id q)"
  shows "fst (edit_options_for_question d qid opt append_split next_field) = d \<and>
         snd (edit_options_for_question d qid opt append_split next_field)
           \<in> {Redirect (Some OptionsAbnormal) Operator, Redirect (Some ShrinkRejected) Operator,
              Redirect (Some (BelowMaxUsed (max_used_of d (q_id q)))) Operator}"
  using assms by (auto simp: edit_options_for_question_def Let_def)

theorem edit_options_no_shrink_witness:
  "max_used_of class_stale 1 = 5 \<and> length (options question3) = 3 \<and>
   int (length (new_options_of (options question3) (\<lambda>i. []) [])) < max_used_of class_stale (q_id question3) \<and>
   fst (edit_options_for_question class_stale 1 (\<lambda>i. []) [] []) = class_stale \<and>
   snd (edit_options_for_question class_stale 1 (\<lambda>i. []) [] [])
     = Redirect (Some (BelowMaxUsed 5)) Operator"
proof -
  have o: "options question3 = [''x'', ''y'', ''z'']" by (simp add: options_def question3_def)
  have qi: "q_id question3 = 1" by (simp add: question3_def)
  have m: "max_used_of class_stale 1 = 5"
    by (simp add: max_used_of_def class_stale_def class1_def answer213_def)
  have h: "length (new_options_of (options question3) (\<lambda>i. []) []) < length (options question3) \<or>
       int (length (new_options_of (options question3) (\<lambda>i. []) []))
         < max_used_of class_stale (q_id question3)"
    by (simp add: o qi m new_options_of_no_append)
  have e: "snd (edit_options_for_question class_stale 1 (\<lambda>i. []) [] [])
     = Redirect (Some (BelowMaxUsed 5)) Operator"
    by (simp add: edit_options_for_question_def question_class_stale o qi m new_options_of_no_append)
  from edit_options_no_shrink [OF question_class_stale h, of "[]"] e m o qi
  show ?thesis by (simp add: new_options_of_no_append)
qed

section \<open>Deleting a submission\<close>

lemma filter_neq_remove1:
  "distinct (map f xs) \<Longrightarrow> a \<in> set xs \<Longrightarrow> filter (\<lambda>x. f x \<noteq> f a) xs = remove1 a xs"
proof (induction xs)
  case Nil
  then show ?case by simp
next
  case (Cons x xs)
  show ?case
  proof (cases "x = a")
    case True
    with Cons.prems have "f a \<notin> f ` set xs" by simp
    then have "\<forall>y\<in>set xs. f y \<noteq> f a" by (metis image_eqI)
    then have "filter (\<lambda>x. f x \<noteq> f a) xs = xs" by (simp add: filter_id_conv)
    with True show ?thesis by simp
  next
    case False
    with Cons show ?thesis by auto
  qed
qed

lemma first_answer_in: "first_answer d qid sid = Some a \<Longrightarrow> a \<in> set (answers d) \<and> a_question_id a = qid \<and> a_sid a = sid"
  by (auto simp: first_answer_def find_Some_iff)

lemma delete_answer_remove1:
  "distinct (map a_id (answers d)) \<Longrightarrow> first_answer d qid sid = Some a \<Longrightarrow>
   delete_answer d a = d\<lparr>answers := remove1 a (answers d)\<rparr>"
  by (simp add: delete_answer_def filter_neq_remove1 first_answer_in)

lemma delete_submission_students:
  "students (fst (delete_submission d sid_field)) = students d \<and>
   students (fst (delete_submission_for_question d qid sid_field next_field)) = students d"
  by (simp add: delete_submission_def delete_submission_for_question_def delete_answer_def Let_def
      split: option.splits)

text \<open>
  C8. Deleting the answer of a student on a question, through either endpoint and
  whether the question is settled or not, takes that one row out of the table of answers
  and changes nothing else: no score of a student, no row of another answer. No request
  to these endpoints changes the table of students.
\<close>

theorem delete_submission_only_answer:
  assumes "distinct (map a_id (answers d))"
    and "isdigit (strip sid_field)"
    and "first_answer d (q_id q) (int_of_digits (strip sid_field)) = Some a"
  shows "(get_question d qid = Some q \<longrightarrow>
            fst (delete_submission_for_question d qid sid_field next_field)
              = d\<lparr>answers := remove1 a (answers d)\<rparr>) \<and>
         (get_active_question d = Some q \<longrightarrow>
            fst (delete_submission d sid_field) = d\<lparr>answers := remove1 a (answers d)\<rparr>) \<and>
         students (fst (delete_submission d sid_field)) = students d \<and>
         students (fst (delete_submission_for_question d qid sid_field next_field)) = students d"
  using assms delete_submission_students [of d sid_field qid next_field]
  by (auto simp: delete_submission_for_question_def delete_submission_def Let_def
      delete_answer_remove1)

theorem delete_submission_only_answer_witness:
  "q_settled_at (question3\<lparr>q_settled_at := Some 5\<rparr>) = Some 5 \<and>
   first_answer class2 1 2 = Some answer213 \<and>
   fst (delete_submission_for_question class2 1 ''2'' ''results'') = class2\<lparr>answers := []\<rparr> \<and>
   fst (delete_submission class2 ''2'') = class2\<lparr>answers := []\<rparr> \<and>
   students (fst (delete_submission class2 ''2'')) = students class2"
proof -
  have d: "distinct (map a_id (answers class2))" by (simp add: class2_def class1_def)
  have i: "isdigit (strip ''2'')" by (simp add: strip_2 isdigit_2)
  have f0: "first_answer class2 1 2 = Some answer213"
    by (simp add: first_answer_def class2_def class1_def answer213_def)
  have qi: "q_id (question3\<lparr>q_settled_at := Some 5\<rparr>) = 1" by (simp add: question3_def)
  have f: "first_answer class2 (q_id (question3\<lparr>q_settled_at := Some 5\<rparr>)) (int_of_digits (strip ''2''))
             = Some answer213"
    by (simp add: qi strip_2 int_2 f0)
  have r: "remove1 answer213 (answers class2) = []" by (simp add: class2_def class1_def)
  from delete_submission_only_answer [OF d i f, of 1 "''results''"] active_class2 question_class2 f0
  show ?thesis unfolding r by simp
qed

section \<open>Settling\<close>

lemma fold_latest_in: "fold (\<lambda>x best. if q_created_at best < q_created_at x then x else best) qs q \<in> set (q # qs)"
  by (induction qs arbitrary: q) auto

lemma get_active_question_in:
  assumes "get_active_question d = Some q"
  shows "q \<in> set (questions d) \<and> q_is_active q"
proof -
  from assms obtain x xs where f: "filter q_is_active (questions d) = x # xs"
    and q: "q = fold (\<lambda>x best. if q_created_at best < q_created_at x then x else best) xs x"
    by (auto simp: get_active_question_def split: list.splits)
  from q have "q \<in> set (x # xs)" using fold_latest_in by blast
  then have "q \<in> set (filter q_is_active (questions d))" using f by simp
  then show ?thesis by simp
qed

lemma get_active_question_None:
  "get_active_question d = None \<longleftrightarrow> (\<forall>q\<in>set (questions d). \<not> q_is_active q)"
proof (cases "filter q_is_active (questions d)")
  case Nil
  then show ?thesis by (simp add: get_active_question_def filter_empty_conv)
next
  case (Cons x xs)
  then have "x \<in> set (filter q_is_active (questions d))" by simp
  then have "\<exists>q\<in>set (questions d). q_is_active q" by auto
  with Cons show ?thesis by (simp add: get_active_question_def)
qed

lemma find_update_key:
  "distinct (map k xs) \<Longrightarrow> q \<in> set xs \<Longrightarrow> k (u q) = k q \<Longrightarrow>
   find (\<lambda>x. k x = k q) (map (\<lambda>x. if k x = k q then u x else x) xs) = Some (u q)"
  by (induction xs) (auto simp: image_iff)

text \<open>
  C10. Settling is turned down exactly when no question is active, and then changes
  nothing. When a question is active, settling redirects to its results and writes the
  time of the request into its settle timestamp, whatever that timestamp was before.
\<close>

theorem settle_question_overwrites:
  "(snd (settle_question d t) = Redirect (Some NoActive) Operator
      \<longleftrightarrow> (\<forall>x\<in>set (questions d). \<not> q_is_active x)) \<and>
   ((\<forall>x\<in>set (questions d). \<not> q_is_active x) \<longrightarrow> fst (settle_question d t) = d) \<and>
   (get_active_question d = Some q \<longrightarrow>
      settle_question d t =
        (d\<lparr>questions := map (\<lambda>x. if q_id x = q_id q then x\<lparr>q_settled_at := Some t\<rparr> else x)
                            (questions d)\<rparr>,
         Redirect None (Results (q_id q)))) \<and>
   (get_active_question d = Some q \<and> distinct (map q_id (questions d)) \<longrightarrow>
      get_question (fst (settle_question d t)) (q_id q) = Some (q\<lparr>q_settled_at := Some t\<rparr>))"
proof -
  have a: "snd (settle_question d t) = Redirect (Some NoActive) Operator
      \<longleftrightarrow> (\<forall>x\<in>set (questions d). \<not> q_is_active x)"
    unfolding get_active_question_None [symmetric]
    by (simp add: settle_question_def split: option.splits)
  have b: "(\<forall>x\<in>set (questions d). \<not> q_is_active x) \<longrightarrow> fst (settle_question d t) = d"
    unfolding get_active_question_None [symmetric]
    by (simp add: settle_question_def)
  have c: "get_active_question d = Some q \<longrightarrow>
      settle_question d t =
        (d\<lparr>questions := map (\<lambda>x. if q_id x = q_id q then x\<lparr>q_settled_at := Some t\<rparr> else x)
                            (questions d)\<rparr>,
         Redirect None (Results (q_id q)))"
    by (simp add: settle_question_def)
  have e: "get_active_question d = Some q \<and> distinct (map q_id (questions d)) \<longrightarrow>
      get_question (fst (settle_question d t)) (q_id q) = Some (q\<lparr>q_settled_at := Some t\<rparr>)"
  proof
    assume h: "get_active_question d = Some q \<and> distinct (map q_id (questions d))"
    then have "q \<in> set (questions d)" using get_active_question_in by blast
    with h show "get_question (fst (settle_question d t)) (q_id q) = Some (q\<lparr>q_settled_at := Some t\<rparr>)"
      by (simp add: settle_question_def get_question_def find_update_key)
  qed
  from a b c e show ?thesis by blast
qed

theorem settle_question_overwrites_witness:
  "snd (settle_question (class2\<lparr>questions := []\<rparr>) 9) = Redirect (Some NoActive) Operator \<and>
   get_active_question class2 = Some (question3\<lparr>q_settled_at := Some 5\<rparr>) \<and>
   settle_question class2 9 =
     (class2\<lparr>questions := [question3\<lparr>q_settled_at := Some 9\<rparr>]\<rparr>, Redirect None (Results 1)) \<and>
   get_question (fst (settle_question class2 9)) 1 = Some (question3\<lparr>q_settled_at := Some 9\<rparr>)"
proof -
  have n: "\<forall>x\<in>set (questions (class2\<lparr>questions := []\<rparr>)). \<not> q_is_active x" by simp
  have 1: "snd (settle_question (class2\<lparr>questions := []\<rparr>) 9) = Redirect (Some NoActive) Operator"
    using settle_question_overwrites [of "class2\<lparr>questions := []\<rparr>" 9 question3] n by blast
  have d: "distinct (map q_id (questions class2))" by (simp add: class2_def)
  have qi: "q_id (question3\<lparr>q_settled_at := Some 5\<rparr>) = 1" by (simp add: question3_def)
  have m: "map (\<lambda>x. if q_id x = 1 then x\<lparr>q_settled_at := Some 9\<rparr> else x) (questions class2)
      = [question3\<lparr>q_settled_at := Some 9\<rparr>]"
    by (simp add: class2_def question3_def)
  from settle_question_overwrites [of class2 9 "question3\<lparr>q_settled_at := Some 5\<rparr>"]
    active_class2 d
  have A: "settle_question class2 9 =
      (class2\<lparr>questions := map (\<lambda>x. if q_id x = q_id (question3\<lparr>q_settled_at := Some 5\<rparr>)
                                       then x\<lparr>q_settled_at := Some 9\<rparr> else x) (questions class2)\<rparr>,
       Redirect None (Results (q_id (question3\<lparr>q_settled_at := Some 5\<rparr>))))"
    and B: "get_question (fst (settle_question class2 9)) (q_id (question3\<lparr>q_settled_at := Some 5\<rparr>))
      = Some (question3\<lparr>q_settled_at := Some 5\<rparr>\<lparr>q_settled_at := Some 9\<rparr>)"
    by blast+
  have A': "settle_question class2 9 =
     (class2\<lparr>questions := [question3\<lparr>q_settled_at := Some 9\<rparr>]\<rparr>, Redirect None (Results 1))"
    using A unfolding qi m .
  have B': "get_question (fst (settle_question class2 9)) 1 = Some (question3\<lparr>q_settled_at := Some 9\<rparr>)"
    using B unfolding qi by simp
  note 2 = conjI [OF A' B']
  from 1 2 active_class2 show ?thesis by blast
qed

section \<open>Scoring\<close>

text \<open>
  What a scoring request with an invalid target is answered with. In every case the store
  is left as it was. The reply is the message for the case when the question id is not a
  string of digits, names no question and can be bound, or when the option index or the
  student id is a number out of range; it is the error nothing catches when \<open>int\<close>
  raises on the question id, the option index or the student id, or when the question id
  is too large to bind.
\<close>

lemma score_actions_rejections:
  "(\<not> str_isdigit (strip (f_question_id form))
      \<longrightarrow> score_actions d form rnd t = (d, Redirect (Some MissingQuestionId) Operator)) \<and>
   (str_isdigit (strip (f_question_id form)) \<and> \<not> isdigit (strip (f_question_id form))
      \<longrightarrow> score_actions d form rnd t = (d, ServerError500)) \<and>
   (isdigit (strip (f_question_id form)) \<and>
    get_question d (int_of_digits (strip (f_question_id form))) = None \<and>
    bind_overflow (int_of_digits (strip (f_question_id form)))
      \<longrightarrow> score_actions d form rnd t = (d, ServerError500)) \<and>
   (isdigit (strip (f_question_id form)) \<and>
    get_question d (int_of_digits (strip (f_question_id form))) = None \<and>
    \<not> bind_overflow (int_of_digits (strip (f_question_id form)))
      \<longrightarrow> score_actions d form rnd t = (d, Redirect (Some QuestionMissing) Operator)) \<and>
   (isdigit (strip (f_question_id form)) \<and>
    get_question d (int_of_digits (strip (f_question_id form))) = Some q \<and>
    (strip (f_action_type form) = ''A'' \<or> strip (f_action_type form) = ''C'') \<and>
    f_option_index form = None
      \<longrightarrow> score_actions d form rnd t = (d, ServerError500)) \<and>
   (isdigit (strip (f_question_id form)) \<and>
    get_question d (int_of_digits (strip (f_question_id form))) = Some q \<and>
    (strip (f_action_type form) = ''A'' \<or> strip (f_action_type form) = ''C'') \<and>
    f_option_index form = Some option_index \<and>
    (option_index < 1 \<or> option_index > int (length (options q)))
      \<longrightarrow> score_actions d form rnd t
            = (d, Redirect (Some OptionInvalid)
                    (if strip (f_next form) = ''results'' then Results (q_id q) else Operator))) \<and>
   (isdigit (strip (f_question_id form)) \<and>
    get_question d (int_of_digits (strip (f_question_id form))) = Some q \<and>
    strip (f_action_type form) = ''B'' \<and> f_sid form = None
      \<longrightarrow> score_actions d form rnd t = (d, ServerError500)) \<and>
   (isdigit (strip (f_question_id form)) \<and>
    get_question d (int_of_digits (strip (f_question_id form))) = Some q \<and>
    strip (f_action_type form) = ''B'' \<and> f_sid form = Some sid \<and> (sid < 1 \<or> sid > 64)
      \<longrightarrow> score_actions d form rnd t
            = (d, Redirect (Some SidInvalid)
                    (if strip (f_next form) = ''results'' then Results (q_id q) else Operator)))"
  by (auto simp: score_actions_def Let_def MIN_SID_def MAX_SID_def)

lemma strip_huge: "strip ''99999999999999999999'' = ''99999999999999999999''"
  by (simp add: strip_def isspace_def)

lemma isdigit_huge: "isdigit ''99999999999999999999''"
  by (simp add: isdigit_def)

lemma int_huge: "int_of_digits ''99999999999999999999'' = 99999999999999999999"
  by (simp add: int_of_digits_def)

lemma no_question_huge: "get_question class1 99999999999999999999 = None"
  by (simp add: get_question_def class1_def question3_def)

lemma overflow_huge: "bind_overflow 99999999999999999999"
  by (simp add: bind_overflow_def)

lemma superscript_two: "str_isdigit (strip [CHR 0xB2]) \<and> \<not> isdigit (strip [CHR 0xB2])"
  by (simp add: strip_def isspace_def str_isdigit_def isdigit_def)

text \<open>
  C9. The claim asks that every scoring request with an invalid target be turned down
  with a structured outcome and without a change to the store. The store is indeed left
  as it was, but the outcome is not always structured. Question 99999999999999999999
  does not exist, and the request that names it ends in the \<open>OverflowError\<close> of the
  lookup, answered with status 500, where a question that is missing has a message of
  its own. The same holds of a question id written with a superscript digit, which
  \<open>isdigit\<close> of Python lets through and \<open>int\<close> refuses, and of an option index
  that is not a number, on which \<open>int\<close> raises where \<open>parse_float\<close> next to it
  falls back to 0.
\<close>

theorem score_actions_unbound_question_id:
  "map q_id (questions class1) = [1] \<and>
   score_actions class1 (form_C\<lparr>f_question_id := ''99999999999999999999''\<rparr>) half 9
     = (class1, ServerError500) \<and>
   score_actions class1 (form_C\<lparr>f_question_id := [CHR 0xB2]\<rparr>) half 9
     = (class1, ServerError500) \<and>
   score_actions class1 (form_C\<lparr>f_option_index := None\<rparr>) half 9
     = (class1, ServerError500)"
proof -
  have q: "map q_id (questions class1) = [1]" by (simp add: class1_def question3_def)
  have 1: "score_actions class1 (form_C\<lparr>f_question_id := ''99999999999999999999''\<rparr>) half 9
     = (class1, ServerError500)"
    by (simp add: score_actions_def form_C_def strip_huge isdigit_huge int_huge no_question_huge
        overflow_huge)
  have 2: "score_actions class1 (form_C\<lparr>f_question_id := [CHR 0xB2]\<rparr>) half 9
     = (class1, ServerError500)"
    using superscript_two by (simp add: score_actions_def form_C_def)
  have 3: "score_actions class1 (form_C\<lparr>f_option_index := None\<rparr>) half 9
     = (class1, ServerError500)"
    by (simp add: score_actions_def form_C_def strip_1 isdigit_1 int_1 question_class1 strip_C)
  from q 1 2 3 show ?thesis by blast
qed




lemma find_sid_map_score:
  "find (\<lambda>s. st_sid s = k) (map (\<lambda>s. if st_sid s = sid then s\<lparr>st_score := st_score s + c\<rparr> else s) xs) = None
   \<longleftrightarrow> find (\<lambda>s. st_sid s = k) xs = None"
  by (induction xs) auto

lemma get_student_add_score [simp]:
  "get_student (add_score d sid c) k = None \<longleftrightarrow> get_student d k = None"
  by (simp add: get_student_def add_score_def find_sid_map_score)

lemma get_student_add_score_change [simp]:
  "get_student (add_score_change d aid c) k = get_student d k"
  by (simp add: get_student_def add_score_change_def)










end
